theory Spec2Isabelle
  imports Main
begin

section \<open>The Ollama connection supervisor (ollamaConnectionManager.ts)\<close>

text \<open>
  The class \<open>OllamaConnectionManager\<close> keeps one \<open>ConnectionState\<close> object, a reconnect
  timer and a health-check interval. JavaScript objects and arrays are references, and the
  class both replaces \<open>this.state\<close> by fresh objects (\<open>updateStatus\<close>, the success path of
  \<open>connect\<close>) and assigns to fields of the current object in place
  (\<open>this.state.reconnectAttempts++\<close>, \<open>this.state.currentModel = ...\<close>). The model therefore
  has an explicit store: record objects and string arrays live at addresses, and
  \<open>this.state\<close> is an address.

  The asynchronous methods are cut at their \<open>await\<close>s into segments that run to completion;
  what the network, the launcher, the clock and the user answer are parameters of the
  segment that receives the answer. Calls of \<open>logService\<close> change nothing the supervisor
  owns and are left out.
\<close>

subsection \<open>Data\<close>

type_synonym addr = nat

datatype ConnectionStatus = Connected | Disconnected | Reconnecting | Starting

record ConnectionState =
  status :: ConnectionStatus
  lastError :: "string option"
  reconnectAttempts :: nat
  lastSuccessfulConnection :: "int option"
  currentModel :: "string option"
  availableModels :: addr
  latency :: "int option"

text \<open>What the supervisor does to the outside, in order: events fired, messages shown,
  requests sent, timers set and cleared.
  \<open>StatusChanged a v\<close> is \<open>_onStatusChanged.fire(this.state)\<close>: the payload is the reference
  \<open>a\<close>; \<open>v\<close> is what the object holds at that moment.\<close>

datatype effect =
    StatusChanged addr ConnectionState
  | ModelChanged string
  | InformationMessage string
  | ErrorMessage string "string list"
  | Request string string
  | TextDocumentShown
  | TimeoutSet nat nat
  | TimeoutCleared nat
  | IntervalSet nat
  | IntervalCleared nat

text \<open>The answer of a \<open>fetch\<close>: an OK response (with what the caller reads of its body),
  a response that is not OK (with its HTTP status), or a rejection (timeout, network
  error, malformed body) with the error's message.\<close>

datatype 'b fetched = Ok 'b | NotOk nat | Threw string

text \<open>A suspended computation: which \<open>await\<close> it waits at, and the locals it still needs.
  The flag of the two connect tasks says that \<open>initialize\<close> awaits this \<open>connect()\<close>.\<close>

datatype task =
    AwaitRunning bool
  | AwaitTags bool int
  | AwaitHealth int
  | AwaitGenerate string
  | AwaitAction

datatype action = Retry | OpenSettings | Dismissed

record Manager =
  objects :: "addr \<Rightarrow> ConnectionState"
  arrays :: "addr \<Rightarrow> string list"
  nextAddr :: addr
  state :: addr
  reconnectTimer :: "nat option"
  healthCheckInterval :: "nat option"
  ollamaEndpoint :: string
  timeouts :: "(nat \<times> nat) list"
  intervals :: "nat list"
  nextHandle :: nat
  tasks :: "task list"
  trace :: "effect list"

definition MAX_RECONNECT_ATTEMPTS :: nat where
  "MAX_RECONNECT_ATTEMPTS = 10"

definition INITIAL_RECONNECT_DELAY :: nat where
  "INITIAL_RECONNECT_DELAY = 1000"

definition MAX_RECONNECT_DELAY :: nat where
  "MAX_RECONNECT_DELAY = 30000"

subsection \<open>Reading the store\<close>

definition cur :: "Manager \<Rightarrow> ConnectionState" where
  "cur m = objects m (state m)"

definition models :: "Manager \<Rightarrow> string list" where
  "models m = arrays m (availableModels (cur m))"

text \<open>\<open>this.state.f = v\<close>: an assignment to a field of the current object, in place.\<close>

definition assign :: "(ConnectionState \<Rightarrow> ConnectionState) \<Rightarrow> Manager \<Rightarrow> Manager" where
  "assign f m = m\<lparr>objects := (objects m)(state m := f (cur m))\<rparr>"

definition emit :: "effect \<Rightarrow> Manager \<Rightarrow> Manager" where
  "emit e m = m\<lparr>trace := trace m @ [e]\<rparr>"

definition suspend :: "task \<Rightarrow> Manager \<Rightarrow> Manager" where
  "suspend t m = m\<lparr>tasks := tasks m @ [t]\<rparr>"

subsection \<open>Template strings\<close>

definition digit :: "nat \<Rightarrow> char" where
  "digit d = ''0123456789'' ! d"

function show_nat :: "nat \<Rightarrow> string" where
  "show_nat n = (if n < 10 then [digit n] else show_nat (n div 10) @ [digit (n mod 10)])"
  by pat_completeness auto
termination
  by (relation "measure id") auto

declare show_nat.simps [simp del]

subsection \<open>Timers of the host\<close>

text \<open>\<open>timeouts\<close> holds the pending timeouts (handle and delay), \<open>intervals\<close> the running
  intervals. A handle is never reused; clearing a handle that is not pending does nothing.\<close>

definition setTimeout :: "nat \<Rightarrow> Manager \<Rightarrow> nat \<times> Manager" where
  "setTimeout delay m =
     (nextHandle m,
      m\<lparr>timeouts := timeouts m @ [(nextHandle m, delay)], nextHandle := Suc (nextHandle m),
        trace := trace m @ [TimeoutSet (nextHandle m) delay]\<rparr>)"

definition clearTimeout :: "nat \<Rightarrow> Manager \<Rightarrow> Manager" where
  "clearTimeout h m =
     m\<lparr>timeouts := filter (\<lambda>p. fst p \<noteq> h) (timeouts m), trace := trace m @ [TimeoutCleared h]\<rparr>"

definition setInterval :: "Manager \<Rightarrow> nat \<times> Manager" where
  "setInterval m =
     (nextHandle m,
      m\<lparr>intervals := intervals m @ [nextHandle m], nextHandle := Suc (nextHandle m),
        trace := trace m @ [IntervalSet (nextHandle m)]\<rparr>)"

definition clearInterval :: "nat \<Rightarrow> Manager \<Rightarrow> Manager" where
  "clearInterval h m =
     m\<lparr>intervals := filter (\<lambda>h'. h' \<noteq> h) (intervals m), trace := trace m @ [IntervalCleared h]\<rparr>"

text \<open>A pending timeout fires: the host takes it off its list and runs the callback.\<close>

definition expire :: "nat \<Rightarrow> Manager \<Rightarrow> Manager" where
  "expire h m = m\<lparr>timeouts := filter (\<lambda>p. fst p \<noteq> h) (timeouts m)\<rparr>"

subsection \<open>updateStatus and scheduleReconnect\<close>

text \<open>\<open>updateStatus\<close> (lines 297-305): a new object, copied from the current one with
  \<open>status\<close> and \<open>lastError\<close> replaced; then the new object itself is fired.\<close>

definition updateStatus :: "ConnectionStatus \<Rightarrow> string option \<Rightarrow> Manager \<Rightarrow> Manager" where
  "updateStatus st err m =
     (let a = nextAddr m;
          m1 = m\<lparr>objects := (objects m)(a := (cur m)\<lparr>status := st, lastError := err\<rparr>),
                 nextAddr := Suc a, state := a\<rparr>
      in emit (StatusChanged (state m1) (cur m1)) m1)"

text \<open>The local \<open>delay\<close> of \<open>scheduleReconnect\<close> (lines 238-241), as a function of
  \<open>this.state.reconnectAttempts\<close>. \<open>Math.pow(2, n)\<close> is exact up to n = 1023 and infinite
  beyond, where \<open>Math.min\<close> gives the maximum delay as well. The delay is a multiple
  of 1000 in both cases, so \<open>delay / 1000\<close> in the status text is a whole number.\<close>

definition backoff_delay :: "nat \<Rightarrow> nat" where
  "backoff_delay attempts = min (INITIAL_RECONNECT_DELAY * 2 ^ attempts) MAX_RECONNECT_DELAY"

definition scheduleReconnect :: "Manager \<Rightarrow> Manager" where
  "scheduleReconnect m =
     (if reconnectAttempts (cur m) \<ge> MAX_RECONNECT_ATTEMPTS then
        suspend AwaitAction
          (emit (ErrorMessage
             ''Unable to connect to Ollama after multiple attempts. Please ensure Ollama is running.''
             [''Retry'', ''Open Settings'']) m)
      else
        let delay = backoff_delay (reconnectAttempts (cur m));
            m1 = assign (\<lambda>s. s\<lparr>reconnectAttempts := Suc (reconnectAttempts s)\<rparr>) m;
            m2 = updateStatus Reconnecting
                   (Some (''Reconnecting in '' @ show_nat (delay div 1000) @ ''s...'')) m1;
            m3 = (case reconnectTimer m2 of None \<Rightarrow> m2 | Some h \<Rightarrow> clearTimeout h m2);
            (h, m4) = setTimeout delay m3
        in m4\<lparr>reconnectTimer := Some h\<rparr>)"

subsection \<open>connect\<close>

definition startHealthMonitoring :: "Manager \<Rightarrow> Manager" where
  "startHealthMonitoring m = (let (h, m1) = setInterval m in m1\<lparr>healthCheckInterval := Some h\<rparr>)"

text \<open>\<open>initialize\<close> (lines 72-80) awaits its \<open>connect()\<close> and then starts the health
  monitoring; every other caller drops the promise.\<close>

definition connect_returns :: "bool \<Rightarrow> Manager \<Rightarrow> Manager" where
  "connect_returns init m = (if init then startHealthMonitoring m else m)"

text \<open>Lines 86-90: up to the first \<open>await\<close>.\<close>

definition connect_begin :: "bool \<Rightarrow> Manager \<Rightarrow> Manager" where
  "connect_begin init m =
     suspend (AwaitRunning init)
       (emit (Request ''GET'' (ollamaEndpoint m @ ''/api/version''))
          (updateStatus Starting None m))"

text \<open>Lines 92-107: \<open>isRunning\<close> is what \<open>checkOllamaRunning\<close> answered, \<open>started\<close> what
  \<open>startOllama\<close> answered (asked only when nothing runs), \<open>now\<close> the clock.
  \<open>startOllama\<close> spawns the backend and polls it; it touches nothing of the supervisor,
  and of what it does only its message on success is recorded.\<close>

definition connect_checked :: "bool \<Rightarrow> bool \<Rightarrow> bool \<Rightarrow> int \<Rightarrow> Manager \<Rightarrow> bool option \<times> Manager" where
  "connect_checked init isRunning started now m =
     (if \<not> isRunning \<and> \<not> started then
        (Some False,
         connect_returns init
           (scheduleReconnect
              (updateStatus Disconnected (Some ''Ollama is not installed or cannot be started'') m)))
      else
        let m1 = (if \<not> isRunning then emit (InformationMessage ''Started Ollama service'') m else m)
        in (None,
            suspend (AwaitTags init now)
              (emit (Request ''GET'' (ollamaEndpoint m1 @ ''/api/tags'')) m1)))"

text \<open>Lines 116-135, the success path. The new state object is built and fired first; the
  test of \<open>reconnectAttempts\<close> reads the new object.\<close>

definition connect_succeeded :: "string list \<Rightarrow> int \<Rightarrow> int \<Rightarrow> Manager \<Rightarrow> Manager" where
  "connect_succeeded names startTime now m =
     (let arr = nextAddr m;
          a = Suc arr;
          m1 = m\<lparr>arrays := (arrays m)(arr := names),
                 objects := (objects m)(a := (cur m)\<lparr>
                    status := Connected,
                    reconnectAttempts := 0,
                    lastSuccessfulConnection := Some now,
                    availableModels := arr,
                    latency := Some (now - startTime),
                    lastError := None\<rparr>),
                 nextAddr := Suc a, state := a\<rparr>;
          m2 = emit (StatusChanged (state m1) (cur m1)) m1
      in if reconnectAttempts (cur m2) > 0
         then emit (InformationMessage ''Ollama reconnected successfully!'') m2
         else m2)"

text \<open>Lines 137-146, the \<open>catch\<close>.\<close>

definition connect_failed :: "string \<Rightarrow> Manager \<Rightarrow> Manager" where
  "connect_failed message m =
     (let errorMessage = (if message = [] then ''Unknown error'' else message)
      in scheduleReconnect (updateStatus Disconnected (Some errorMessage) m))"

text \<open>Lines 109-146: the answer of \<open>/api/tags\<close>. \<open>Ok None\<close> is a body without \<open>models\<close>.\<close>

definition connect_settled ::
  "bool \<Rightarrow> int \<Rightarrow> string list option fetched \<Rightarrow> int \<Rightarrow> Manager \<Rightarrow> bool \<times> Manager" where
  "connect_settled init startTime response now m =
     (case response of
        Ok body \<Rightarrow>
          (True, connect_returns init
             (connect_succeeded (case body of None \<Rightarrow> [] | Some names \<Rightarrow> names) startTime now m))
      | NotOk code \<Rightarrow>
          (False, connect_returns init (connect_failed (''HTTP '' @ show_nat code) m))
      | Threw message \<Rightarrow>
          (False, connect_returns init (connect_failed message m)))"

subsection \<open>Health monitoring\<close>

text \<open>The interval callback (lines 263-291), up to its \<open>await\<close>.\<close>

definition health_tick :: "int \<Rightarrow> Manager \<Rightarrow> Manager" where
  "health_tick now m =
     (if status (cur m) = Connected
      then suspend (AwaitHealth now)
             (emit (Request ''GET'' (ollamaEndpoint m @ ''/api/version'')) m)
      else m)"

definition health_settled :: "int \<Rightarrow> unit fetched \<Rightarrow> int \<Rightarrow> Manager \<Rightarrow> Manager" where
  "health_settled startTime response now m =
     (case response of
        Ok _ \<Rightarrow> assign (\<lambda>s. s\<lparr>latency := Some (now - startTime)\<rparr>) m
      | _ \<Rightarrow> scheduleReconnect (updateStatus Disconnected (Some ''Connection lost'') m))"

subsection \<open>switchModel, getState, reconnect, cleanup, updateEndpoint\<close>

text \<open>Lines 310-335. \<open>Some b\<close>: the call is over with result \<open>b\<close>; \<open>None\<close>: the request is
  out and the call waits.\<close>

definition switchModel_call :: "string \<Rightarrow> Manager \<Rightarrow> bool option \<times> Manager" where
  "switchModel_call modelName m =
     (if status (cur m) \<noteq> Connected then
        (Some False, emit (ErrorMessage ''Cannot switch model: Not connected to Ollama'' []) m)
      else if modelName \<notin> set (models m) then
        (Some False, emit (ErrorMessage (''Model '' @ modelName @ '' is not available'') []) m)
      else
        (None,
         suspend (AwaitGenerate modelName)
           (emit (Request ''POST'' (ollamaEndpoint m @ ''/api/generate'')) m)))"

text \<open>Lines 337-350.\<close>

definition switchModel_settled :: "string \<Rightarrow> unit fetched \<Rightarrow> Manager \<Rightarrow> bool \<times> Manager" where
  "switchModel_settled modelName response m =
     (case response of
        Ok _ \<Rightarrow>
          (True,
           emit (InformationMessage (''Switched to model: '' @ modelName))
             (emit (ModelChanged modelName)
                (assign (\<lambda>s. s\<lparr>currentModel := Some modelName\<rparr>) m)))
      | NotOk code \<Rightarrow>
          (False,
           emit (ErrorMessage
                  (''Failed to switch model: '' @ ''Failed to switch model: HTTP '' @ show_nat code) []) m)
      | Threw message \<Rightarrow>
          (False, emit (ErrorMessage (''Failed to switch model: '' @ message) []) m))"

text \<open>\<open>getState\<close> (lines 356-358): a new object with the fields of the current one. The
  field \<open>availableModels\<close> of the copy is the same array reference.\<close>

definition getState :: "Manager \<Rightarrow> addr \<times> Manager" where
  "getState m =
     (let a = nextAddr m
      in (a, m\<lparr>objects := (objects m)(a := cur m), nextAddr := Suc a\<rparr>))"

definition reconnect :: "Manager \<Rightarrow> Manager" where
  "reconnect m =
     (let m1 = assign (\<lambda>s. s\<lparr>reconnectAttempts := 0\<rparr>) m;
          m2 = (case reconnectTimer m1 of None \<Rightarrow> m1 | Some h \<Rightarrow> clearTimeout h m1)
      in connect_begin False m2)"

definition cleanup :: "Manager \<Rightarrow> Manager" where
  "cleanup m =
     (let m1 = (case reconnectTimer m of None \<Rightarrow> m | Some h \<Rightarrow> clearTimeout h m)
      in (case healthCheckInterval m1 of None \<Rightarrow> m1 | Some h \<Rightarrow> clearInterval h m1))"

definition updateEndpoint :: "string \<Rightarrow> Manager \<Rightarrow> Manager" where
  "updateEndpoint endpoint m = reconnect (m\<lparr>ollamaEndpoint := endpoint\<rparr>)"

text \<open>The continuation of the error prompt of \<open>scheduleReconnect\<close> (lines 225-233).\<close>

definition prompt_answered :: "action \<Rightarrow> Manager \<Rightarrow> Manager" where
  "prompt_answered act m =
     (case act of
        Retry \<Rightarrow> connect_begin False (assign (\<lambda>s. s\<lparr>reconnectAttempts := 0\<rparr>) m)
      | OpenSettings \<Rightarrow> emit TextDocumentShown m
      | Dismissed \<Rightarrow> m)"

subsection \<open>The constructor and the event loop\<close>

text \<open>The field initialisers and the constructor (lines 33-67): the first state object,
  its empty array, and \<open>initialize()\<close> run up to the \<open>await\<close> inside its \<open>connect()\<close>.\<close>

definition blank :: "string \<Rightarrow> Manager" where
  "blank endpoint =
     \<lparr>objects = (\<lambda>_. \<lparr>status = Disconnected, lastError = None, reconnectAttempts = 0,
                      lastSuccessfulConnection = None, currentModel = None,
                      availableModels = 0, latency = None\<rparr>),
      arrays = (\<lambda>_. []),
      nextAddr = 2, state = 1,
      reconnectTimer = None, healthCheckInterval = None,
      ollamaEndpoint = endpoint,
      timeouts = [], intervals = [], nextHandle = 0,
      tasks = [], trace = []\<rparr>"

definition construct :: "string \<Rightarrow> Manager" where
  "construct endpoint = connect_begin True (blank endpoint)"

text \<open>One turn of the event loop: a call of the public interface, a timer that fires, or
  the answer a suspended task waits for. \<open>None\<close>: the event cannot happen now.\<close>

datatype event =
    CallConnect
  | CallSwitchModel string
  | CallGetState
  | CallReconnect
  | CallUpdateEndpoint string
  | CallDispose
  | TimerFires nat
  | HealthTick nat int
  | RunningSettles nat bool bool int
  | TagsSettle nat "string list option fetched" int
  | HealthSettles nat "unit fetched" int
  | GenerateSettles nat "unit fetched"
  | PromptAnswered nat action

definition resume :: "nat \<Rightarrow> Manager \<Rightarrow> Manager" where
  "resume i m = m\<lparr>tasks := take i (tasks m) @ drop (Suc i) (tasks m)\<rparr>"

definition waiting :: "nat \<Rightarrow> Manager \<Rightarrow> task option" where
  "waiting i m = (if i < length (tasks m) then Some (tasks m ! i) else None)"

fun step :: "event \<Rightarrow> Manager \<Rightarrow> Manager option" where
  "step CallConnect m = Some (connect_begin False m)"
| "step (CallSwitchModel modelName) m = Some (snd (switchModel_call modelName m))"
| "step CallGetState m = Some (snd (getState m))"
| "step CallReconnect m = Some (reconnect m)"
| "step (CallUpdateEndpoint endpoint) m = Some (updateEndpoint endpoint m)"
| "step CallDispose m = Some (cleanup m)"
| "step (TimerFires h) m =
     (if h \<in> fst ` set (timeouts m)
      then Some (connect_begin False (expire h m))
      else None)"
| "step (HealthTick h now) m =
     (if h \<in> set (intervals m) then Some (health_tick now m) else None)"
| "step (RunningSettles i isRunning started now) m =
     (case waiting i m of
        Some (AwaitRunning init) \<Rightarrow>
          Some (snd (connect_checked init isRunning started now (resume i m)))
      | _ \<Rightarrow> None)"
| "step (TagsSettle i response now) m =
     (case waiting i m of
        Some (AwaitTags init startTime) \<Rightarrow>
          Some (snd (connect_settled init startTime response now (resume i m)))
      | _ \<Rightarrow> None)"
| "step (HealthSettles i response now) m =
     (case waiting i m of
        Some (AwaitHealth startTime) \<Rightarrow> Some (health_settled startTime response now (resume i m))
      | _ \<Rightarrow> None)"
| "step (GenerateSettles i response) m =
     (case waiting i m of
        Some (AwaitGenerate modelName) \<Rightarrow>
          Some (snd (switchModel_settled modelName response (resume i m)))
      | _ \<Rightarrow> None)"
| "step (PromptAnswered i act) m =
     (case waiting i m of
        Some AwaitAction \<Rightarrow> Some (prompt_answered act (resume i m))
      | _ \<Rightarrow> None)"

fun run :: "event list \<Rightarrow> Manager \<Rightarrow> Manager option" where
  "run [] m = Some m"
| "run (e # es) m = (case step e m of None \<Rightarrow> None | Some m' \<Rightarrow> run es m')"

text \<open>The states the supervisor reaches by its own code, with observers that only read.\<close>

inductive reachable :: "Manager \<Rightarrow> bool" where
  constructed: "reachable (construct endpoint)"
| turn: "reachable m \<Longrightarrow> step e m = Some m' \<Longrightarrow> reachable m'"

subsection \<open>Two properties of a manager\<close>

text \<open>Connected means that no error is recorded and no attempt counted.\<close>

definition clean :: "Manager \<Rightarrow> bool" where
  "clean m \<longleftrightarrow>
     (status (cur m) = Connected \<longrightarrow> lastError (cur m) = None \<and> reconnectAttempts (cur m) = 0)"

text \<open>At most one timeout is pending, and it is the one \<open>reconnectTimer\<close> refers to.\<close>

definition single :: "Manager \<Rightarrow> bool" where
  "single m \<longleftrightarrow>
     length (timeouts m) \<le> 1 \<and> (\<forall>p \<in> set (timeouts m). reconnectTimer m = Some (fst p))"

text \<open>The array that \<open>availableModels\<close> refers to, and the store of arrays.\<close>

definition roster :: "Manager \<Rightarrow> addr \<times> (addr \<Rightarrow> string list)" where
  "roster m = (availableModels (cur m), arrays m)"

subsection \<open>Observers\<close>

text \<open>An observer holds the references it was handed: the payload of a status-changed event
  or the result of \<open>getState\<close>. The type \<open>ConnectionState\<close> has no read-only field, so
  the observer can assign to a field of the object and push onto its array.\<close>

definition observer_assign :: "addr \<Rightarrow> (ConnectionState \<Rightarrow> ConnectionState) \<Rightarrow> Manager \<Rightarrow> Manager" where
  "observer_assign a f m = m\<lparr>objects := (objects m)(a := f (objects m a))\<rparr>"

definition observer_push :: "addr \<Rightarrow> string \<Rightarrow> Manager \<Rightarrow> Manager" where
  "observer_push a x m = m\<lparr>arrays := (arrays m)(a := arrays m a @ [x])\<rparr>"

subsection \<open>Reading a trace\<close>

text \<open>What a listener of status-changed sees of each event (the status and the counter of
  the payload), interleaved with the delays of the timeouts that are set.\<close>

datatype seen = Status ConnectionStatus nat | Timer nat

fun digest :: "effect list \<Rightarrow> seen list" where
  "digest [] = []"
| "digest (StatusChanged a v # es) = Status (status v) (reconnectAttempts v) # digest es"
| "digest (TimeoutSet h d # es) = Timer d # digest es"
| "digest (e # es) = digest es"

text \<open>The statuses alone.\<close>

fun shown :: "seen list \<Rightarrow> ConnectionStatus list" where
  "shown [] = []"
| "shown (Status st n # xs) = st # shown xs"
| "shown (Timer d # xs) = shown xs"


text \<open>The constructor returns the object only after \<open>initialize()\<close> has run up to its
  first \<open>await\<close>, and \<open>onStatusChanged\<close> is a field of the object: what is fired inside the
  constructor reaches no listener. \<open>since m0 m\<close> is what a listener subscribed in state
  \<open>m0\<close> has been delivered when the supervisor is in state \<open>m\<close>.\<close>

definition since :: "Manager \<Rightarrow> Manager \<Rightarrow> effect list" where
  "since m0 m = drop (length (trace m0)) (trace m)"

text \<open>The events that somebody asks for, as opposed to timers and answers of the network.\<close>

fun explicit :: "event \<Rightarrow> bool" where
  "explicit CallConnect = True"
| "explicit (CallSwitchModel modelName) = True"
| "explicit CallGetState = True"
| "explicit CallReconnect = True"
| "explicit (CallUpdateEndpoint endpoint) = True"
| "explicit CallDispose = True"
| "explicit (PromptAnswered i act) = True"
| "explicit e = False"

text \<open>The events in which a \<open>connect()\<close> succeeds.\<close>

fun connects :: "event \<Rightarrow> bool" where
  "connects (TagsSettle i (Ok body) now) = True"
| "connects e = False"

subsection \<open>Scenarios\<close>

definition localhost :: string where
  "localhost = ''http://localhost:11434''"

text \<open>Nothing answers and the launcher fails: the call of \<open>connect()\<close> in flight ends.\<close>

definition refused :: event where
  "refused = RunningSettles 0 False False 0"

text \<open>The backend answers at once and reports the models a and b.\<close>

definition connected_ab :: Manager where
  "connected_ab =
     the (run [RunningSettles 0 True False 0, TagsSettle 0 (Ok (Some [''a'', ''b''])) 3]
            (construct localhost))"

text \<open>The first attempt is refused; one reconnect timer is pending.\<close>

definition pending_once :: Manager where
  "pending_once = the (run [refused] (construct localhost))"

text \<open>The first attempt is refused, the timer fires, and now the backend runs: the second
  \<open>connect()\<close> waits for the answer of \<open>/api/tags\<close>, with one attempt counted.\<close>

definition recovering :: Manager where
  "recovering =
     the (run [refused, TimerFires 0, RunningSettles 0 True False 5] (construct localhost))"

text \<open>The backend is never there. The constructor's attempt is refused, and then each
  timer fires and its attempt is refused too. Handle 1 is the health-check interval, so
  the timers are 0, 2, 3, ...\<close>

definition handle :: "nat \<Rightarrow> nat" where
  "handle k = (if k = 0 then 0 else Suc k)"

definition refusals :: "nat \<Rightarrow> event list" where
  "refusals k = refused # concat (map (\<lambda>j. [TimerFires (handle j), refused]) [0..<k])"

text \<open>What a listener sees in round k of that scenario, counted from 0.\<close>

definition round :: "nat \<Rightarrow> seen list" where
  "round k = [Status Starting k, Status Disconnected k, Status Reconnecting (Suc k),
              Timer (backoff_delay k)]"

definition rounds :: "nat \<Rightarrow> seen list" where
  "rounds k = concat (map round [0..<k])"

definition stalled :: Manager where
  "stalled = the (run (refusals 10) (construct localhost))"


section \<open>Proofs\<close>

subsection \<open>How the operations change what is read from the manager\<close>

lemmas prims = emit_def suspend_def assign_def clearTimeout_def clearInterval_def setTimeout_def
  setInterval_def expire_def resume_def

lemmas mids = updateStatus_def scheduleReconnect_def connect_succeeded_def getState_def
  startHealthMonitoring_def

lemmas tops = connect_returns_def connect_begin_def connect_checked_def connect_failed_def
  connect_settled_def health_tick_def health_settled_def switchModel_call_def
  switchModel_settled_def reconnect_def cleanup_def updateEndpoint_def prompt_answered_def
  waiting_def

lemma cur_prims [simp]:
  "cur (emit e m) = cur m"
  "cur (suspend t m) = cur m"
  "cur (clearTimeout h m) = cur m"
  "cur (clearInterval h m) = cur m"
  "cur (expire h m) = cur m"
  "cur (resume i m) = cur m"
  "cur (assign f m) = f (cur m)"
  "cur (m\<lparr>ollamaEndpoint := ep\<rparr>) = cur m"
  by (simp_all add: prims cur_def)

lemma cur_updateStatus [simp]:
  "cur (updateStatus st err m) = (cur m)\<lparr>status := st, lastError := err\<rparr>"
  by (simp add: updateStatus_def Let_def prims cur_def)

lemma cur_scheduleReconnect:
  "cur (scheduleReconnect m) =
     (if reconnectAttempts (cur m) \<ge> MAX_RECONNECT_ATTEMPTS then cur m
      else (cur m)\<lparr>reconnectAttempts := Suc (reconnectAttempts (cur m)), status := Reconnecting,
             lastError := Some (''Reconnecting in ''
                @ show_nat (backoff_delay (reconnectAttempts (cur m)) div 1000) @ ''s...'')\<rparr>)"
  by (simp add: scheduleReconnect_def updateStatus_def Let_def prims cur_def split: option.splits)

lemma cur_connect_succeeded:
  "cur (connect_succeeded names startTime now m) =
     (cur m)\<lparr>status := Connected, reconnectAttempts := 0, lastSuccessfulConnection := Some now,
       availableModels := nextAddr m, latency := Some (now - startTime), lastError := None\<rparr>"
  by (simp add: connect_succeeded_def Let_def prims cur_def)

lemma cur_getState [simp]: "cur (snd (getState m)) = cur m"
  by (simp add: getState_def Let_def cur_def)

lemma cur_startHealthMonitoring [simp]: "cur (startHealthMonitoring m) = cur m"
  by (simp add: startHealthMonitoring_def prims cur_def)

lemma timeouts_prims [simp]:
  "timeouts (emit e m) = timeouts m"
  "timeouts (suspend t m) = timeouts m"
  "timeouts (assign f m) = timeouts m"
  "timeouts (resume i m) = timeouts m"
  "timeouts (clearInterval h m) = timeouts m"
  "timeouts (clearTimeout h m) = filter (\<lambda>p. fst p \<noteq> h) (timeouts m)"
  "timeouts (expire h m) = filter (\<lambda>p. fst p \<noteq> h) (timeouts m)"
  "timeouts (updateStatus st err m) = timeouts m"
  "timeouts (connect_succeeded names startTime now m) = timeouts m"
  "timeouts (snd (getState m)) = timeouts m"
  "timeouts (startHealthMonitoring m) = timeouts m"
  by (simp_all add: prims mids Let_def)

lemma timer_prims [simp]:
  "reconnectTimer (emit e m) = reconnectTimer m"
  "reconnectTimer (suspend t m) = reconnectTimer m"
  "reconnectTimer (assign f m) = reconnectTimer m"
  "reconnectTimer (resume i m) = reconnectTimer m"
  "reconnectTimer (clearTimeout h m) = reconnectTimer m"
  "reconnectTimer (clearInterval h m) = reconnectTimer m"
  "reconnectTimer (expire h m) = reconnectTimer m"
  "reconnectTimer (updateStatus st err m) = reconnectTimer m"
  "reconnectTimer (connect_succeeded names startTime now m) = reconnectTimer m"
  "reconnectTimer (snd (getState m)) = reconnectTimer m"
  "reconnectTimer (startHealthMonitoring m) = reconnectTimer m"
  by (simp_all add: prims mids Let_def)

lemma nextHandle_prims [simp]:
  "nextHandle (emit e m) = nextHandle m"
  "nextHandle (suspend t m) = nextHandle m"
  "nextHandle (assign f m) = nextHandle m"
  "nextHandle (resume i m) = nextHandle m"
  "nextHandle (clearTimeout h m) = nextHandle m"
  "nextHandle (clearInterval h m) = nextHandle m"
  "nextHandle (expire h m) = nextHandle m"
  "nextHandle (updateStatus st err m) = nextHandle m"
  "nextHandle (connect_succeeded names startTime now m) = nextHandle m"
  "nextHandle (snd (getState m)) = nextHandle m"
  "nextHandle (startHealthMonitoring m) = Suc (nextHandle m)"
  by (simp_all add: prims mids Let_def)

lemma timeouts_scheduleReconnect:
  "timeouts (scheduleReconnect m) =
     (if reconnectAttempts (cur m) \<ge> MAX_RECONNECT_ATTEMPTS then timeouts m
      else (case reconnectTimer m of None \<Rightarrow> timeouts m
            | Some h \<Rightarrow> filter (\<lambda>p. fst p \<noteq> h) (timeouts m))
           @ [(nextHandle m, backoff_delay (reconnectAttempts (cur m)))])"
  by (simp add: scheduleReconnect_def updateStatus_def Let_def prims cur_def split: option.splits)

lemma timer_scheduleReconnect:
  "reconnectTimer (scheduleReconnect m) =
     (if reconnectAttempts (cur m) \<ge> MAX_RECONNECT_ATTEMPTS then reconnectTimer m
      else Some (nextHandle m))"
  by (simp add: scheduleReconnect_def updateStatus_def Let_def prims cur_def split: option.splits)

subsection \<open>Connected means no error and no counted attempt\<close>

lemma clean_prims [simp]:
  "clean (emit e m) = clean m"
  "clean (suspend t m) = clean m"
  "clean (clearTimeout h m) = clean m"
  "clean (clearInterval h m) = clean m"
  "clean (expire h m) = clean m"
  "clean (resume i m) = clean m"
  "clean (m\<lparr>ollamaEndpoint := ep\<rparr>) = clean m"
  "clean (snd (getState m)) = clean m"
  "clean (startHealthMonitoring m) = clean m"
  "clean (connect_returns init m) = clean m"
  by (simp_all add: clean_def connect_returns_def)

lemma clean_updateStatus [simp]: "st \<noteq> Connected \<Longrightarrow> clean (updateStatus st err m)"
  by (simp add: clean_def)

lemma clean_assign [simp]:
  "clean m \<Longrightarrow> clean (assign (\<lambda>s. s\<lparr>reconnectAttempts := 0\<rparr>) m)"
  "clean m \<Longrightarrow> clean (assign (\<lambda>s. s\<lparr>latency := l\<rparr>) m)"
  "clean m \<Longrightarrow> clean (assign (\<lambda>s. s\<lparr>currentModel := c\<rparr>) m)"
  by (simp_all add: clean_def)

lemma clean_scheduleReconnect [simp]: "clean m \<Longrightarrow> clean (scheduleReconnect m)"
  by (simp add: clean_def cur_scheduleReconnect)

lemma clean_connect_succeeded [simp]: "clean (connect_succeeded names startTime now m)"
  by (simp add: clean_def cur_connect_succeeded)

lemma clean_connect_begin [simp]: "clean (connect_begin init m)"
  by (simp add: connect_begin_def)

lemma clean_connect_failed [simp]: "clean (connect_failed message m)"
  by (simp add: connect_failed_def)

lemma clean_connect_checked [simp]:
  "clean m \<Longrightarrow> clean (snd (connect_checked init isRunning started now m))"
  by (simp add: connect_checked_def Let_def)

lemma clean_connect_settled [simp]:
  "clean (snd (connect_settled init startTime response now m))"
  by (simp add: connect_settled_def split: fetched.splits)

lemma clean_health_tick [simp]: "clean m \<Longrightarrow> clean (health_tick now m)"
  by (simp add: health_tick_def)

lemma clean_health_settled [simp]: "clean m \<Longrightarrow> clean (health_settled startTime response now m)"
  by (simp add: health_settled_def split: fetched.splits)

lemma clean_switchModel_call [simp]: "clean m \<Longrightarrow> clean (snd (switchModel_call modelName m))"
  by (simp add: switchModel_call_def)

lemma clean_switchModel_settled [simp]:
  "clean m \<Longrightarrow> clean (snd (switchModel_settled modelName response m))"
  by (simp add: switchModel_settled_def split: fetched.splits)

lemma clean_reconnect [simp]: "clean (reconnect m)"
  by (simp add: reconnect_def Let_def)

lemma clean_cleanup [simp]: "clean m \<Longrightarrow> clean (cleanup m)"
  by (simp add: cleanup_def Let_def split: option.splits)

lemma clean_prompt_answered [simp]: "clean m \<Longrightarrow> clean (prompt_answered act m)"
  by (simp add: prompt_answered_def split: action.splits)

lemma clean_step: "step e m = Some m' \<Longrightarrow> clean m \<Longrightarrow> clean m'"
  by (cases e) (auto simp: updateEndpoint_def split: option.splits task.splits if_splits)

lemma clean_construct: "clean (construct endpoint)"
  by (simp add: construct_def)

lemma clean_reachable: "reachable m \<Longrightarrow> clean m"
  by (induction rule: reachable.induct) (auto intro: clean_construct clean_step)

subsection \<open>At most one pending reconnect timer\<close>

lemma single_prims [simp]:
  "single (emit e m) = single m"
  "single (suspend t m) = single m"
  "single (assign f m) = single m"
  "single (clearInterval h m) = single m"
  "single (resume i m) = single m"
  "single (m\<lparr>ollamaEndpoint := ep\<rparr>) = single m"
  "single (updateStatus st err m) = single m"
  "single (connect_succeeded names startTime now m) = single m"
  "single (snd (getState m)) = single m"
  "single (startHealthMonitoring m) = single m"
  "single (connect_returns init m) = single m"
  by (simp_all add: single_def connect_returns_def)

lemma single_filter:
  "single m \<Longrightarrow> reconnectTimer m = Some h \<Longrightarrow> filter (\<lambda>p. fst p \<noteq> h) (timeouts m) = []"
  by (auto simp: single_def filter_empty_conv)

lemma single_none: "single m \<Longrightarrow> reconnectTimer m = None \<Longrightarrow> timeouts m = []"
  by (cases "timeouts m") (auto simp: single_def)

lemma single_cleared: "single m \<Longrightarrow> single (clearTimeout h m)"
  unfolding single_def
  by (auto intro: order_trans [OF length_filter_le])

lemma single_expire [simp]: "single m \<Longrightarrow> single (expire h m)"
  unfolding single_def
  by (auto intro: order_trans [OF length_filter_le])

lemma single_timer_cleared [simp]:
  "single m \<Longrightarrow> single (case reconnectTimer m of None \<Rightarrow> m | Some h \<Rightarrow> clearTimeout h m)"
  by (simp add: single_cleared split: option.splits)

lemma timeouts_scheduled:
  "single m \<Longrightarrow> reconnectAttempts (cur m) < MAX_RECONNECT_ATTEMPTS \<Longrightarrow>
     timeouts (scheduleReconnect m) = [(nextHandle m, backoff_delay (reconnectAttempts (cur m)))]"
  by (simp add: timeouts_scheduleReconnect single_filter single_none split: option.splits)

lemma single_scheduleReconnect [simp]: "single m \<Longrightarrow> single (scheduleReconnect m)"
proof (cases "reconnectAttempts (cur m) < MAX_RECONNECT_ATTEMPTS")
  case True
  assume "single m"
  from timeouts_scheduled [OF this True] True show ?thesis
    by (simp add: single_def timer_scheduleReconnect)
next
  case False
  assume "single m"
  with False show ?thesis
    by (simp add: single_def timer_scheduleReconnect timeouts_scheduleReconnect)
qed

lemma single_connect_begin [simp]: "single m \<Longrightarrow> single (connect_begin init m)"
  by (simp add: connect_begin_def)

lemma single_connect_failed [simp]: "single m \<Longrightarrow> single (connect_failed message m)"
  by (simp add: connect_failed_def)

lemma single_connect_checked [simp]:
  "single m \<Longrightarrow> single (snd (connect_checked init isRunning started now m))"
  by (simp add: connect_checked_def Let_def)

lemma single_connect_settled [simp]:
  "single m \<Longrightarrow> single (snd (connect_settled init startTime response now m))"
  by (simp add: connect_settled_def split: fetched.splits)

lemma single_health_tick [simp]: "single m \<Longrightarrow> single (health_tick now m)"
  by (simp add: health_tick_def)

lemma single_health_settled [simp]:
  "single m \<Longrightarrow> single (health_settled startTime response now m)"
  by (simp add: health_settled_def split: fetched.splits)

lemma single_switchModel_call [simp]: "single m \<Longrightarrow> single (snd (switchModel_call modelName m))"
  by (simp add: switchModel_call_def)

lemma single_switchModel_settled [simp]:
  "single m \<Longrightarrow> single (snd (switchModel_settled modelName response m))"
  by (simp add: switchModel_settled_def split: fetched.splits)

lemma timeouts_reconnect: "single m \<Longrightarrow> timeouts (reconnect m) = []"
  by (cases "reconnectTimer m")
     (simp_all add: reconnect_def connect_begin_def Let_def single_filter single_none)

lemma single_reconnect [simp]: "single m \<Longrightarrow> single (reconnect m)"
proof -
  assume "single m"
  then have "single (assign (\<lambda>s. s\<lparr>reconnectAttempts := 0\<rparr>) m)"
    by simp
  from single_timer_cleared [OF this] show ?thesis
    by (simp add: reconnect_def Let_def)
qed

lemma single_cleanup [simp]: "single m \<Longrightarrow> single (cleanup m)"
proof -
  assume "single m"
  from single_timer_cleared [OF this] show ?thesis
    by (simp add: cleanup_def Let_def split: option.splits)
qed

lemma single_prompt_answered [simp]: "single m \<Longrightarrow> single (prompt_answered act m)"
  by (simp add: prompt_answered_def split: action.splits)

lemma single_step: "step e m = Some m' \<Longrightarrow> single m \<Longrightarrow> single m'"
  by (cases e) (auto simp: updateEndpoint_def split: option.splits task.splits if_splits)

lemma single_construct: "single (construct endpoint)"
proof -
  have "single (blank endpoint)"
    by (simp add: single_def blank_def)
  then show ?thesis
    by (simp add: construct_def)
qed

lemma single_reachable: "reachable m \<Longrightarrow> single m"
  by (induction rule: reachable.induct) (auto intro: single_construct single_step)


subsection \<open>Runs and the scenarios\<close>

lemmas exec = tops mids prims cur_def models_def construct_def blank_def Let_def refused_def
  localhost_def MAX_RECONNECT_ATTEMPTS_def INITIAL_RECONNECT_DELAY_def MAX_RECONNECT_DELAY_def
  backoff_delay_def

lemma run_reachable: "reachable m \<Longrightarrow> run es m = Some m' \<Longrightarrow> reachable m'"
proof (induction es arbitrary: m)
  case Nil
  then show ?case by simp
next
  case (Cons e es)
  then show ?case
    by (auto split: option.splits intro: reachable.turn)
qed

lemma run_the: "run es m \<noteq> None \<Longrightarrow> run es m = Some (the (run es m))"
  by simp

lemma reachable_pending_once: "reachable pending_once"
proof -
  have "run [refused] (construct localhost) \<noteq> None"
    by (simp add: exec)
  from run_reachable [OF reachable.constructed run_the [OF this]] show ?thesis
    by (simp add: pending_once_def)
qed

lemma pending_once_facts:
  "reconnectAttempts (cur pending_once) = 1"
  "status (cur pending_once) = Reconnecting"
  "timeouts pending_once = [(0, 1000)]"
  "nextHandle pending_once = 2"
  by (simp_all add: pending_once_def exec)

lemma reachable_connected_ab: "reachable connected_ab"
proof -
  have "run [RunningSettles 0 True False 0, TagsSettle 0 (Ok (Some [''a'', ''b''])) 3]
          (construct localhost) \<noteq> None"
    by (simp add: exec)
  from run_reachable [OF reachable.constructed run_the [OF this]] show ?thesis
    by (simp add: connected_ab_def)
qed

lemma connected_ab_facts:
  "status (cur connected_ab) = Connected"
  "lastError (cur connected_ab) = None"
  "reconnectAttempts (cur connected_ab) = 0"
  "models connected_ab = [''a'', ''b'']"
  "timeouts connected_ab = []"
  "tasks connected_ab = []"
  by (simp_all add: connected_ab_def exec)

subsection \<open>The trace, the tasks and the store under the operations\<close>

lemma nextAddr_prims [simp]:
  "nextAddr (emit e m) = nextAddr m"
  "nextAddr (suspend t m) = nextAddr m"
  "nextAddr (assign f m) = nextAddr m"
  "nextAddr (resume i m) = nextAddr m"
  "nextAddr (clearTimeout h m) = nextAddr m"
  "nextAddr (clearInterval h m) = nextAddr m"
  "nextAddr (expire h m) = nextAddr m"
  "nextAddr (updateStatus st err m) = Suc (nextAddr m)"
  "nextAddr (startHealthMonitoring m) = nextAddr m"
  by (simp_all add: prims mids Let_def)

lemma trace_prims [simp]:
  "trace (emit e m) = trace m @ [e]"
  "trace (suspend t m) = trace m"
  "trace (assign f m) = trace m"
  "trace (resume i m) = trace m"
  "trace (expire h m) = trace m"
  "trace (clearTimeout h m) = trace m @ [TimeoutCleared h]"
  "trace (clearInterval h m) = trace m @ [IntervalCleared h]"
  "trace (startHealthMonitoring m) = trace m @ [IntervalSet (nextHandle m)]"
  "trace (snd (getState m)) = trace m"
  "trace (updateStatus st err m) =
     trace m @ [StatusChanged (nextAddr m) ((cur m)\<lparr>status := st, lastError := err\<rparr>)]"
  by (simp_all add: prims mids Let_def cur_def)

lemma trace_connect_succeeded:
  "trace (connect_succeeded names startTime now m) =
     trace m @ [StatusChanged (Suc (nextAddr m))
       ((cur m)\<lparr>status := Connected, reconnectAttempts := 0,
          lastSuccessfulConnection := Some now, availableModels := nextAddr m,
          latency := Some (now - startTime), lastError := None\<rparr>)]"
  by (simp add: connect_succeeded_def Let_def emit_def cur_def)

lemma trace_scheduleReconnect:
  "trace (scheduleReconnect m) =
     (if reconnectAttempts (cur m) \<ge> MAX_RECONNECT_ATTEMPTS then
        trace m @ [ErrorMessage
          ''Unable to connect to Ollama after multiple attempts. Please ensure Ollama is running.''
          [''Retry'', ''Open Settings'']]
      else
        trace m
        @ [StatusChanged (nextAddr m)
             ((cur m)\<lparr>reconnectAttempts := Suc (reconnectAttempts (cur m)), status := Reconnecting,
                lastError := Some (''Reconnecting in ''
                  @ show_nat (backoff_delay (reconnectAttempts (cur m)) div 1000) @ ''s...'')\<rparr>)]
        @ (case reconnectTimer m of None \<Rightarrow> [] | Some h \<Rightarrow> [TimeoutCleared h])
        @ [TimeoutSet (nextHandle m) (backoff_delay (reconnectAttempts (cur m)))])"
  by (simp add: scheduleReconnect_def updateStatus_def Let_def prims cur_def split: option.splits)

lemma tasks_prims [simp]:
  "tasks (emit e m) = tasks m"
  "tasks (suspend t m) = tasks m @ [t]"
  "tasks (assign f m) = tasks m"
  "tasks (resume i m) = take i (tasks m) @ drop (Suc i) (tasks m)"
  "tasks (expire h m) = tasks m"
  "tasks (clearTimeout h m) = tasks m"
  "tasks (clearInterval h m) = tasks m"
  "tasks (startHealthMonitoring m) = tasks m"
  "tasks (snd (getState m)) = tasks m"
  "tasks (updateStatus st err m) = tasks m"
  by (simp_all add: prims mids Let_def)

lemma tasks_scheduleReconnect:
  "tasks (scheduleReconnect m) =
     (if reconnectAttempts (cur m) \<ge> MAX_RECONNECT_ATTEMPTS then tasks m @ [AwaitAction]
      else tasks m)"
  by (simp add: scheduleReconnect_def updateStatus_def Let_def prims cur_def split: option.splits)

lemma nextHandle_scheduleReconnect:
  "nextHandle (scheduleReconnect m) =
     (if reconnectAttempts (cur m) \<ge> MAX_RECONNECT_ATTEMPTS then nextHandle m
      else Suc (nextHandle m))"
  by (simp add: scheduleReconnect_def updateStatus_def Let_def prims cur_def split: option.splits)

lemma intervals_prims [simp]:
  "intervals (emit e m) = intervals m"
  "intervals (suspend t m) = intervals m"
  "intervals (assign f m) = intervals m"
  "intervals (resume i m) = intervals m"
  "intervals (expire h m) = intervals m"
  "intervals (clearTimeout h m) = intervals m"
  "intervals (updateStatus st err m) = intervals m"
  "intervals (scheduleReconnect m) = intervals m"
  by (simp_all add: prims mids Let_def split: option.splits)

lemma digest_append [simp]: "digest (xs @ ys) = digest xs @ digest ys"
  by (induction xs rule: digest.induct) simp_all

lemma run_append:
  "run (es @ es') m = (case run es m of None \<Rightarrow> None | Some m' \<Rightarrow> run es' m')"
  by (induction es arbitrary: m) (simp_all split: option.splits)

subsection \<open>The scenario in which nothing ever answers\<close>

text \<open>One more round of the scenario in which nothing ever answers: the pending timer
  fires and the attempt it starts is refused.\<close>

lemma refused_round_below:
  assumes "reconnectAttempts (cur m) = k" "k < MAX_RECONNECT_ATTEMPTS"
    and "tasks m = []" "timeouts m = [(h, d)]" "reconnectTimer m = Some h"
  shows "\<exists>m'. run [TimerFires h, refused] m = Some m'
           \<and> reconnectAttempts (cur m') = Suc k \<and> status (cur m') = Reconnecting
           \<and> tasks m' = [] \<and> timeouts m' = [(nextHandle m, backoff_delay k)]
           \<and> reconnectTimer m' = Some (nextHandle m) \<and> nextHandle m' = Suc (nextHandle m)
           \<and> intervals m' = intervals m
           \<and> digest (trace m') = digest (trace m) @ round k"
  using assms
  by (simp add: refused_def waiting_def connect_begin_def connect_checked_def
        connect_returns_def cur_scheduleReconnect timeouts_scheduleReconnect
        timer_scheduleReconnect tasks_scheduleReconnect nextHandle_scheduleReconnect
        trace_scheduleReconnect round_def)

lemma refused_round_ceiling:
  assumes "reconnectAttempts (cur m) = k" "MAX_RECONNECT_ATTEMPTS \<le> k"
    and "tasks m = []" "timeouts m = [(h, d)]"
  shows "\<exists>m'. run [TimerFires h, refused] m = Some m'
           \<and> reconnectAttempts (cur m') = k \<and> status (cur m') = Disconnected
           \<and> tasks m' = [AwaitAction] \<and> timeouts m' = []
           \<and> intervals m' = intervals m
           \<and> digest (trace m') = digest (trace m) @ [Status Starting k, Status Disconnected k]"
  using assms
  by (simp add: refused_def waiting_def connect_begin_def connect_checked_def
        connect_returns_def cur_scheduleReconnect timeouts_scheduleReconnect
        timer_scheduleReconnect tasks_scheduleReconnect nextHandle_scheduleReconnect
        trace_scheduleReconnect)

lemma refusals_Suc: "refusals (Suc k) = refusals k @ [TimerFires (handle k), refused]"
  by (simp add: refusals_def)

lemma rounds_Suc: "rounds (Suc k) = rounds k @ round k"
  by (simp add: rounds_def)

lemma refusals_run:
  "k < MAX_RECONNECT_ATTEMPTS \<Longrightarrow>
     \<exists>m. run (refusals k) (construct localhost) = Some m
        \<and> reconnectAttempts (cur m) = Suc k \<and> status (cur m) = Reconnecting
        \<and> tasks m = [] \<and> timeouts m = [(handle k, backoff_delay k)]
        \<and> reconnectTimer m = Some (handle k) \<and> nextHandle m = k + 2
        \<and> intervals m = [1]
        \<and> digest (trace m) = rounds (Suc k)"
proof (induction k)
  case 0
  show ?case
    by (simp add: refusals_def rounds_def round_def handle_def exec)
next
  case (Suc k)
  then obtain m where m: "run (refusals k) (construct localhost) = Some m"
    "reconnectAttempts (cur m) = Suc k" "tasks m = []"
    "timeouts m = [(handle k, backoff_delay k)]" "reconnectTimer m = Some (handle k)"
    "nextHandle m = k + 2" "intervals m = [1]" "digest (trace m) = rounds (Suc k)"
    by auto
  from refused_round_below [OF m(2) Suc.prems m(3) m(4) m(5)]
  obtain m' where m': "run [TimerFires (handle k), refused] m = Some m'"
    "reconnectAttempts (cur m') = Suc (Suc k)" "status (cur m') = Reconnecting"
    "tasks m' = []" "timeouts m' = [(nextHandle m, backoff_delay (Suc k))]"
    "reconnectTimer m' = Some (nextHandle m)" "nextHandle m' = Suc (nextHandle m)"
    "intervals m' = intervals m" "digest (trace m') = digest (trace m) @ round (Suc k)"
    by blast
  have "run (refusals (Suc k)) (construct localhost) = Some m'"
    using m(1) m'(1) by (simp only: refusals_Suc run_append option.case)
  with m m' show ?case
    by (simp add: handle_def rounds_Suc)
qed

lemma stalled_facts:
  "run (refusals 10) (construct localhost) = Some stalled"
  "reconnectAttempts (cur stalled) = 10"
  "status (cur stalled) = Disconnected"
  "tasks stalled = [AwaitAction]"
  "timeouts stalled = []"
  "intervals stalled = [1]"
  "digest (trace stalled) = rounds 10 @ [Status Starting 10, Status Disconnected 10]"
proof -
  from refusals_run [of 9]
  obtain m where m: "run (refusals 9) (construct localhost) = Some m"
    "reconnectAttempts (cur m) = 10" "tasks m = []"
    "timeouts m = [(handle 9, backoff_delay 9)]" "intervals m = [1]"
    "digest (trace m) = rounds 10"
    by (auto simp: MAX_RECONNECT_ATTEMPTS_def)
  from refused_round_ceiling [OF m(2) _ m(3) m(4)]
  obtain m' where m': "run [TimerFires (handle 9), refused] m = Some m'"
    "reconnectAttempts (cur m') = 10" "status (cur m') = Disconnected"
    "tasks m' = [AwaitAction]" "timeouts m' = []" "intervals m' = intervals m"
    "digest (trace m') = digest (trace m) @ [Status Starting 10, Status Disconnected 10]"
    by (auto simp: MAX_RECONNECT_ATTEMPTS_def)
  have "refusals 10 = refusals 9 @ [TimerFires (handle 9), refused]"
    using refusals_Suc [of 9] by simp
  with m(1) m'(1) have "run (refusals 10) (construct localhost) = Some m'"
    by (simp only: run_append option.case)
  then have "stalled = m'"
    by (simp add: stalled_def)
  with m m' \<open>run (refusals 10) (construct localhost) = Some m'\<close>
  show "run (refusals 10) (construct localhost) = Some stalled"
    "reconnectAttempts (cur stalled) = 10"
    "status (cur stalled) = Disconnected"
    "tasks stalled = [AwaitAction]"
    "timeouts stalled = []"
    "intervals stalled = [1]"
    "digest (trace stalled) = rounds 10 @ [Status Starting 10, Status Disconnected 10]"
    by simp_all
qed

lemma rounds_10:
  "rounds 10 @ [Status Starting 10, Status Disconnected 10] =
    [Status Starting 0, Status Disconnected 0, Status Reconnecting 1, Timer 1000,
     Status Starting 1, Status Disconnected 1, Status Reconnecting 2, Timer 2000,
     Status Starting 2, Status Disconnected 2, Status Reconnecting 3, Timer 4000,
     Status Starting 3, Status Disconnected 3, Status Reconnecting 4, Timer 8000,
     Status Starting 4, Status Disconnected 4, Status Reconnecting 5, Timer 16000,
     Status Starting 5, Status Disconnected 5, Status Reconnecting 6, Timer 30000,
     Status Starting 6, Status Disconnected 6, Status Reconnecting 7, Timer 30000,
     Status Starting 7, Status Disconnected 7, Status Reconnecting 8, Timer 30000,
     Status Starting 8, Status Disconnected 8, Status Reconnecting 9, Timer 30000,
     Status Starting 9, Status Disconnected 9, Status Reconnecting 10, Timer 30000,
     Status Starting 10, Status Disconnected 10]"
  by (simp add: rounds_def round_def backoff_delay_def INITIAL_RECONNECT_DELAY_def
        MAX_RECONNECT_DELAY_def upt_rec)

subsection \<open>Who writes the list of models\<close>

lemma arrays_prims [simp]:
  "arrays (emit e m) = arrays m"
  "arrays (suspend t m) = arrays m"
  "arrays (assign f m) = arrays m"
  "arrays (resume i m) = arrays m"
  "arrays (expire h m) = arrays m"
  "arrays (clearTimeout h m) = arrays m"
  "arrays (clearInterval h m) = arrays m"
  "arrays (startHealthMonitoring m) = arrays m"
  "arrays (snd (getState m)) = arrays m"
  "arrays (updateStatus st err m) = arrays m"
  "arrays (scheduleReconnect m) = arrays m"
  by (simp_all add: prims mids Let_def split: option.splits)

lemma roster_prims [simp]:
  "roster (emit e m) = roster m"
  "roster (suspend t m) = roster m"
  "roster (resume i m) = roster m"
  "roster (expire h m) = roster m"
  "roster (clearTimeout h m) = roster m"
  "roster (clearInterval h m) = roster m"
  "roster (startHealthMonitoring m) = roster m"
  "roster (snd (getState m)) = roster m"
  "roster (updateStatus st err m) = roster m"
  "roster (scheduleReconnect m) = roster m"
  "roster (m\<lparr>ollamaEndpoint := ep\<rparr>) = roster m"
  "roster (connect_returns init m) = roster m"
  "roster (assign (\<lambda>s. s\<lparr>reconnectAttempts := n\<rparr>) m) = roster m"
  "roster (assign (\<lambda>s. s\<lparr>latency := l\<rparr>) m) = roster m"
  "roster (assign (\<lambda>s. s\<lparr>currentModel := c\<rparr>) m) = roster m"
  by (simp_all add: roster_def cur_scheduleReconnect connect_returns_def)

lemma roster_connect_begin [simp]: "roster (connect_begin init m) = roster m"
  by (simp add: connect_begin_def)

lemma roster_reconnect [simp]: "roster (reconnect m) = roster m"
  by (simp add: reconnect_def Let_def split: option.splits)

lemma roster_cleanup [simp]: "roster (cleanup m) = roster m"
  by (simp add: cleanup_def Let_def split: option.splits)

lemma roster_step: "step e m = Some m' \<Longrightarrow> \<not> connects e \<Longrightarrow> roster m' = roster m"
proof (cases e)
  case (TagsSettle i response now)
  assume "step e m = Some m'" "\<not> connects e"
  with TagsSettle show ?thesis
    by (cases response)
       (auto simp: connect_settled_def connect_failed_def split: option.splits task.splits)
qed (auto simp: updateEndpoint_def connect_checked_def health_tick_def health_settled_def
       switchModel_call_def switchModel_settled_def prompt_answered_def connect_failed_def Let_def
       split: option.splits task.splits if_splits fetched.splits action.splits)

lemma roster_run:
  "run es m = Some m' \<Longrightarrow> \<forall>e \<in> set es. \<not> connects e \<Longrightarrow> roster m' = roster m"
proof (induction es arbitrary: m)
  case Nil
  then show ?case by simp
next
  case (Cons e es)
  then obtain m1 where "step e m = Some m1" "run es m1 = Some m'"
    by (auto split: option.splits)
  with Cons show ?case
    by (simp add: roster_step)
qed

subsection \<open>A recovery, a failed health check, and a supervisor at rest\<close>

lemma recovering_facts:
  "run [refused, TimerFires 0, RunningSettles 0 True False 5] (construct localhost) \<noteq> None"
  "reconnectAttempts (cur recovering) = 1"
  "status (cur recovering) = Starting"
  "tasks recovering = [AwaitTags False 5]"
  "digest (trace recovering) =
     [Status Starting 0, Status Disconnected 0, Status Reconnecting 1, Timer 1000, Status Starting 1]"
  "InformationMessage ''Ollama reconnected successfully!'' \<notin> set (trace recovering)"
  by (simp_all add: recovering_def exec)

lemma health_failed:
  "response \<noteq> Ok () \<Longrightarrow>
     health_settled startTime response now m =
       scheduleReconnect (updateStatus Disconnected (Some ''Connection lost'') m)"
  by (cases response) (simp_all add: health_settled_def)

lemma show_nat_1: "show_nat (Suc 0) = ''1''"
  by (simp add: show_nat.simps digit_def)

lemma idle_step:
  assumes "status (cur m) \<noteq> Connected" "timeouts m = []" "set (tasks m) \<subseteq> {AwaitAction}"
    and "\<not> explicit e"
  shows "step e m = None \<or> step e m = Some m"
proof -
  have w: "waiting i m = None \<or> waiting i m = Some AwaitAction" for i
    using assms(3) by (auto simp: waiting_def dest: nth_mem)
  show ?thesis
  proof (cases e)
    case (TimerFires h)
    with assms(2) show ?thesis by simp
  next
    case (HealthTick h now)
    with assms(1) show ?thesis by (simp add: health_tick_def)
  next
    case (RunningSettles i isRunning started now)
    with w [of i] show ?thesis by auto
  next
    case (TagsSettle i response now)
    with w [of i] show ?thesis by auto
  next
    case (HealthSettles i response now)
    with w [of i] show ?thesis by auto
  next
    case (GenerateSettles i response)
    with w [of i] show ?thesis by auto
  qed (use assms(4) in simp_all)
qed

subsection \<open>The trace only grows\<close>

lemma trace_grows: "step e m = Some m' \<Longrightarrow> \<exists>t. trace m' = trace m @ t"
  by (cases e)
     (auto simp: tops trace_scheduleReconnect trace_connect_succeeded Let_def
        split: option.splits task.splits fetched.splits action.splits if_splits)

lemma trace_grows_run: "run es m = Some m' \<Longrightarrow> \<exists>t. trace m' = trace m @ t"
proof (induction es arbitrary: m)
  case Nil
  then show ?case by simp
next
  case (Cons e es)
  then obtain m1 where s: "step e m = Some m1" and r: "run es m1 = Some m'"
    by (auto split: option.splits)
  from trace_grows [OF s] Cons.IH [OF r] show ?case
    by auto
qed

lemma since_append: "trace m = trace m0 @ t \<Longrightarrow> since m0 m = t"
  by (simp add: since_def)


subsection \<open>At the ceiling\<close>






lemma stalled_idle: "\<not> explicit e \<Longrightarrow> step e stalled = None \<or> step e stalled = Some stalled"
  by (rule idle_step) (simp_all add: stalled_facts)

lemma construct_fires: "digest (trace (construct localhost)) = [Status Starting 0]"
  by (simp add: exec)

lemma stalled_heard:
  "digest (since (construct localhost) stalled) =
    [Status Disconnected 0, Status Reconnecting 1, Timer 1000,
     Status Starting 1, Status Disconnected 1, Status Reconnecting 2, Timer 2000,
     Status Starting 2, Status Disconnected 2, Status Reconnecting 3, Timer 4000,
     Status Starting 3, Status Disconnected 3, Status Reconnecting 4, Timer 8000,
     Status Starting 4, Status Disconnected 4, Status Reconnecting 5, Timer 16000,
     Status Starting 5, Status Disconnected 5, Status Reconnecting 6, Timer 30000,
     Status Starting 6, Status Disconnected 6, Status Reconnecting 7, Timer 30000,
     Status Starting 7, Status Disconnected 7, Status Reconnecting 8, Timer 30000,
     Status Starting 8, Status Disconnected 8, Status Reconnecting 9, Timer 30000,
     Status Starting 9, Status Disconnected 9, Status Reconnecting 10, Timer 30000,
     Status Starting 10, Status Disconnected 10]"
proof -
  from trace_grows_run [OF stalled_facts(1)]
  obtain t where t: "trace stalled = trace (construct localhost) @ t"
    by blast
  have "digest (trace stalled) = [Status Starting 0] @ digest t"
    by (simp add: t construct_fires)
  with stalled_facts(7) rounds_10 since_append [OF t] show ?thesis
    by simp
qed

section \<open>The claims\<close>

text \<open>C1. The delay of the Nth scheduled reconnect attempt, the one scheduled when the
  counter holds N - 1, is min(1000 * 2^(N-1), 30000) milliseconds: \<open>scheduleReconnect\<close> sets
  a timeout of that delay and moves the counter to N. The ceiling of ten attempts is the
  bound up to which \<open>scheduleReconnect\<close> sets a timeout at all; the delay expression itself
  has the stated value for every N, in particular 1000, 16000, 30000 and 30000 for
  N = 1, 5, 6 and 100.\<close>

theorem backoff_delay_formula:
  "1 \<le> N \<Longrightarrow>
     backoff_delay (N - 1) = min (1000 * 2 ^ (N - 1)) 30000
   \<and> (N \<le> 10 \<and> reconnectAttempts (cur m) = N - 1 \<longrightarrow>
        reconnectAttempts (cur (scheduleReconnect m)) = N
      \<and> reconnectTimer (scheduleReconnect m) = Some (nextHandle m)
      \<and> timeouts (scheduleReconnect m) \<noteq> []
      \<and> last (timeouts (scheduleReconnect m)) = (nextHandle m, min (1000 * 2 ^ (N - 1)) 30000))
   \<and> backoff_delay (1 - 1) = 1000 \<and> backoff_delay (5 - 1) = 16000
   \<and> backoff_delay (6 - 1) = 30000 \<and> backoff_delay (100 - 1) = 30000"
  by (auto simp add: cur_scheduleReconnect timeouts_scheduleReconnect timer_scheduleReconnect
        backoff_delay_def INITIAL_RECONNECT_DELAY_def MAX_RECONNECT_DELAY_def
        MAX_RECONNECT_ATTEMPTS_def)

theorem backoff_delay_formula_witness:
  "(1::nat) \<le> 2 \<and> (2::nat) \<le> 10 \<and> reconnectAttempts (cur pending_once) = 2 - 1
   \<and> reconnectAttempts (cur (scheduleReconnect pending_once)) = 2
   \<and> last (timeouts (scheduleReconnect pending_once)) = (2, 2000)"
  using backoff_delay_formula [of 2 pending_once]
  by (simp add: pending_once_facts)

text \<open>C2. In every reachable state, status Connected implies that \<open>lastError\<close> is absent and
  \<open>reconnectAttempts\<close> is 0; and every \<open>connect()\<close> that returns true leaves the status
  Connected, the counter 0 and no error, whatever they were before.\<close>

theorem connected_implies_clean:
  "(reachable m \<longrightarrow> status (cur m) = Connected \<longrightarrow>
      lastError (cur m) = None \<and> reconnectAttempts (cur m) = 0)
   \<and> (fst (connect_settled init startTime response now m') \<longrightarrow>
        status (cur (snd (connect_settled init startTime response now m'))) = Connected
      \<and> lastError (cur (snd (connect_settled init startTime response now m'))) = None
      \<and> reconnectAttempts (cur (snd (connect_settled init startTime response now m'))) = 0)"
proof -
  have "status (cur m) = Connected \<longrightarrow> lastError (cur m) = None \<and> reconnectAttempts (cur m) = 0"
    if "reachable m"
    using clean_reachable [OF that] by (simp add: clean_def)
  moreover
  have "status (cur (snd (connect_settled init startTime response now m'))) = Connected
      \<and> lastError (cur (snd (connect_settled init startTime response now m'))) = None
      \<and> reconnectAttempts (cur (snd (connect_settled init startTime response now m'))) = 0"
    if "fst (connect_settled init startTime response now m')"
  proof -
    from that obtain body where "response = Ok body"
      by (cases response) (simp_all add: connect_settled_def)
    then show ?thesis
      by (simp add: connect_settled_def connect_returns_def cur_connect_succeeded)
  qed
  ultimately show ?thesis
    by blast
qed

theorem connected_implies_clean_witness:
  "reachable connected_ab \<and> status (cur connected_ab) = Connected
   \<and> lastError (cur connected_ab) = None \<and> reconnectAttempts (cur connected_ab) = 0
   \<and> fst (connect_settled False 5 (Ok (Some [''a''])) 9 recovering)
   \<and> reconnectAttempts (cur recovering) = 1
   \<and> reconnectAttempts (cur (snd (connect_settled False 5 (Ok (Some [''a''])) 9 recovering))) = 0"
  using connected_implies_clean [of connected_ab False 5 "Ok (Some [''a''])" 9 recovering]
    reachable_connected_ab
  by (simp add: connected_ab_facts) (simp add: recovering_def exec)

text \<open>C3. \<open>switchModel(name)\<close> called when the status is not Connected, or with a name that
  is not in \<open>availableModels\<close>, returns false at once: it shows an error message and does
  nothing else, so no request is sent, no task waits, and \<open>currentModel\<close> is as before.
  Otherwise it sends the request to \<open>/api/generate\<close> and waits. When that request fails
  (a response that is not OK, or a rejection) the call returns false, shows an error
  message and leaves the state object as it was; when it succeeds the call returns true,
  sets \<open>currentModel\<close> to the name and fires model-changed.\<close>

theorem switchModel_fails_fast:
  "(status (cur m) \<noteq> Connected \<or> modelName \<notin> set (models m) \<longrightarrow>
      fst (switchModel_call modelName m) = Some False
    \<and> (\<exists>msg. trace (snd (switchModel_call modelName m)) = trace m @ [ErrorMessage msg []])
    \<and> tasks (snd (switchModel_call modelName m)) = tasks m
    \<and> cur (snd (switchModel_call modelName m)) = cur m)
   \<and> (status (cur m) = Connected \<and> modelName \<in> set (models m) \<longrightarrow>
      fst (switchModel_call modelName m) = None
    \<and> trace (snd (switchModel_call modelName m))
        = trace m @ [Request ''POST'' (ollamaEndpoint m @ ''/api/generate'')]
    \<and> tasks (snd (switchModel_call modelName m)) = tasks m @ [AwaitGenerate modelName]
    \<and> cur (snd (switchModel_call modelName m)) = cur m)
   \<and> (response \<noteq> Ok () \<longrightarrow>
      fst (switchModel_settled modelName response m) = False
    \<and> (\<exists>msg. trace (snd (switchModel_settled modelName response m)) = trace m @ [ErrorMessage msg []])
    \<and> cur (snd (switchModel_settled modelName response m)) = cur m)
   \<and> fst (switchModel_settled modelName (Ok ()) m) = True
   \<and> cur (snd (switchModel_settled modelName (Ok ()) m)) = (cur m)\<lparr>currentModel := Some modelName\<rparr>
   \<and> trace (snd (switchModel_settled modelName (Ok ()) m))
        = trace m @ [ModelChanged modelName, InformationMessage (''Switched to model: '' @ modelName)]"
proof -
  have "fst (switchModel_settled modelName response m) = False
    \<and> (\<exists>msg. trace (snd (switchModel_settled modelName response m)) = trace m @ [ErrorMessage msg []])
    \<and> cur (snd (switchModel_settled modelName response m)) = cur m"
    if "response \<noteq> Ok ()"
    using that by (cases response) (simp_all add: switchModel_settled_def)
  then show ?thesis
    by (simp add: switchModel_call_def switchModel_settled_def)
qed

theorem switchModel_fails_fast_witness:
  "status (cur connected_ab) = Connected \<and> ''c'' \<notin> set (models connected_ab)
   \<and> ''a'' \<in> set (models connected_ab) \<and> NotOk 404 \<noteq> Ok ()
   \<and> fst (switchModel_call ''c'' connected_ab) = Some False
   \<and> tasks (snd (switchModel_call ''c'' connected_ab)) = []
   \<and> currentModel (cur (snd (switchModel_call ''c'' connected_ab))) = currentModel (cur connected_ab)
   \<and> fst (switchModel_call ''a'' connected_ab) = None
   \<and> fst (switchModel_settled ''a'' (NotOk 404) connected_ab) = False
   \<and> currentModel (cur (snd (switchModel_settled ''a'' (NotOk 404) connected_ab)))
       = currentModel (cur connected_ab)"
  using switchModel_fails_fast [of connected_ab "''c''" "NotOk 404"]
    switchModel_fails_fast [of connected_ab "''a''" "NotOk 404"]
  by (simp add: connected_ab_facts)




text \<open>C5. In every reachable state at most one reconnect timeout is pending, and it is the
  one \<open>reconnectTimer\<close> refers to. \<open>scheduleReconnect\<close> below the ceiling leaves exactly the
  timeout it sets, whatever was pending before (so also after a failed health check), and
  \<open>reconnect()\<close> leaves none pending.\<close>

theorem one_reconnect_timer:
  "reachable m \<Longrightarrow>
     length (timeouts m) \<le> 1
   \<and> (\<forall>p \<in> set (timeouts m). reconnectTimer m = Some (fst p))
   \<and> (reconnectAttempts (cur m) < MAX_RECONNECT_ATTEMPTS \<longrightarrow>
        timeouts (scheduleReconnect m) = [(nextHandle m, backoff_delay (reconnectAttempts (cur m)))]
      \<and> timeouts (health_settled startTime (NotOk code) now m)
          = [(nextHandle m, backoff_delay (reconnectAttempts (cur m)))])
   \<and> timeouts (reconnect m) = []"
proof -
  assume "reachable m"
  then have s: "single m"
    by (rule single_reachable)
  then have s': "single (updateStatus Disconnected (Some ''Connection lost'') m)"
    by simp
  show ?thesis
    using s timeouts_scheduled [OF s] timeouts_scheduled [OF s'] timeouts_reconnect [OF s]
    by (simp add: single_def health_settled_def)
qed

theorem one_reconnect_timer_witness:
  "reachable pending_once \<and> timeouts pending_once = [(0, 1000)]
   \<and> reconnectAttempts (cur pending_once) < MAX_RECONNECT_ATTEMPTS
   \<and> timeouts (scheduleReconnect pending_once) = [(2, 2000)]
   \<and> timeouts (health_settled 0 (NotOk 500) 1 pending_once) = [(2, 2000)]
   \<and> timeouts (reconnect pending_once) = []"
  using one_reconnect_timer [OF reachable_pending_once, of 0 500 1] reachable_pending_once
  by (simp add: pending_once_facts MAX_RECONNECT_ATTEMPTS_def backoff_delay_def
        INITIAL_RECONNECT_DELAY_def MAX_RECONNECT_DELAY_def)

text \<open>C6 (the code does not do it). A \<open>connect()\<close> that succeeds after a counted reconnect
  attempt should show the message "Ollama reconnected successfully!". The success path
  stores the new state object, with the counter already 0, before it tests the counter, so
  the message is never shown: here one attempt is counted when the answer of \<open>/api/tags\<close>
  arrives, the status becomes Connected, and the only effect is the status-changed event.\<close>

theorem reconnected_message_never_shown:
  "reconnectAttempts (cur recovering) = 1 \<and> status (cur recovering) = Starting
   \<and> step (TagsSettle 0 (Ok (Some [''a''])) 9) recovering
       = Some (connect_succeeded [''a''] 5 9 (resume 0 recovering))
   \<and> status (cur (connect_succeeded [''a''] 5 9 (resume 0 recovering))) = Connected
   \<and> InformationMessage ''Ollama reconnected successfully!''
       \<notin> set (trace (connect_succeeded [''a''] 5 9 (resume 0 recovering)))
   \<and> trace (connect_succeeded names startTime now m) =
       trace m @ [StatusChanged (Suc (nextAddr m))
         ((cur m)\<lparr>status := Connected, reconnectAttempts := 0,
            lastSuccessfulConnection := Some now, availableModels := nextAddr m,
            latency := Some (now - startTime), lastError := None\<rparr>)]"
  by (simp add: recovering_facts waiting_def connect_settled_def connect_returns_def
        cur_connect_succeeded trace_connect_succeeded)

text \<open>C7 (the code does not do it). What an observer reads should be a snapshot that cannot
  reach the supervisor's state. \<open>getState()\<close> copies the state object but not the array
  in it: the copy's \<open>availableModels\<close> is the supervisor's array, and a name the observer
  pushes onto it is a name \<open>switchModel\<close> accepts. The payload of status-changed is not a
  copy at all: it is the current state object, and an assignment through it is an
  assignment to the supervisor's state.\<close>

theorem snapshot_shares_store:
  "fst (getState connected_ab) \<noteq> state (snd (getState connected_ab))
   \<and> availableModels (objects (snd (getState connected_ab)) (fst (getState connected_ab)))
       = availableModels (cur connected_ab)
   \<and> models (snd (getState connected_ab)) = [''a'', ''b'']
   \<and> models (observer_push
        (availableModels (objects (snd (getState connected_ab)) (fst (getState connected_ab))))
        ''evil'' (snd (getState connected_ab))) = [''a'', ''b'', ''evil'']
   \<and> fst (switchModel_call ''evil'' (snd (getState connected_ab))) = Some False
   \<and> fst (switchModel_call ''evil'' (observer_push
        (availableModels (objects (snd (getState connected_ab)) (fst (getState connected_ab))))
        ''evil'' (snd (getState connected_ab)))) = None
   \<and> StatusChanged (state connected_ab) (cur connected_ab) \<in> set (trace connected_ab)
   \<and> reconnectAttempts (cur connected_ab) = 0
   \<and> reconnectAttempts (cur (observer_assign (state connected_ab)
        (\<lambda>s. s\<lparr>reconnectAttempts := 7\<rparr>) connected_ab)) = 7"
  by (simp add: connected_ab_def observer_push_def observer_assign_def exec)

text \<open>C8. When a health probe fails (a response that is not OK, a timeout or a network
  error) while the status is Connected, the supervisor sets the status to Disconnected with
  \<open>lastError\<close> "Connection lost" and fires it, and then schedules the reconnect: the
  counter goes to 1, the status to Reconnecting, and exactly one timeout, of 1000 ms, is
  pending. \<open>currentModel\<close>, \<open>availableModels\<close> (the reference and the array) and
  \<open>lastSuccessfulConnection\<close> are as before.\<close>

theorem health_failure_frame:
  "reachable m \<Longrightarrow> status (cur m) = Connected \<Longrightarrow> response \<noteq> Ok () \<Longrightarrow>
     trace (health_settled startTime response now m) =
       trace m
       @ [StatusChanged (nextAddr m)
            ((cur m)\<lparr>status := Disconnected, lastError := Some ''Connection lost''\<rparr>),
          StatusChanged (Suc (nextAddr m))
            ((cur m)\<lparr>status := Reconnecting, lastError := Some ''Reconnecting in 1s...'',
               reconnectAttempts := 1\<rparr>)]
       @ (case reconnectTimer m of None \<Rightarrow> [] | Some h \<Rightarrow> [TimeoutCleared h])
       @ [TimeoutSet (nextHandle m) 1000]
   \<and> timeouts (health_settled startTime response now m) = [(nextHandle m, 1000)]
   \<and> currentModel (cur (health_settled startTime response now m)) = currentModel (cur m)
   \<and> availableModels (cur (health_settled startTime response now m)) = availableModels (cur m)
   \<and> models (health_settled startTime response now m) = models m
   \<and> lastSuccessfulConnection (cur (health_settled startTime response now m))
       = lastSuccessfulConnection (cur m)"
proof -
  assume r: "reachable m" and c: "status (cur m) = Connected" and f: "response \<noteq> Ok ()"
  from clean_reachable [OF r] c have z: "reconnectAttempts (cur m) = 0"
    by (simp add: clean_def)
  from single_reachable [OF r]
  have s: "single (updateStatus Disconnected (Some ''Connection lost'') m)"
    by simp
  have b: "backoff_delay 0 = 1000"
    by (simp add: backoff_delay_def INITIAL_RECONNECT_DELAY_def MAX_RECONNECT_DELAY_def)
  show ?thesis
    using z b timeouts_scheduled [OF s]
    by (simp add: health_failed [OF f] trace_scheduleReconnect cur_scheduleReconnect models_def
          MAX_RECONNECT_ATTEMPTS_def show_nat_1)
qed

theorem health_failure_frame_witness:
  "reachable connected_ab \<and> status (cur connected_ab) = Connected \<and> NotOk 503 \<noteq> Ok ()
   \<and> digest (drop (length (trace connected_ab)) (trace (health_settled 20 (NotOk 503) 21 connected_ab)))
       = [Status Disconnected 0, Status Reconnecting 1, Timer 1000]
   \<and> timeouts (health_settled 20 (NotOk 503) 21 connected_ab) = [(nextHandle connected_ab, 1000)]
   \<and> models (health_settled 20 (NotOk 503) 21 connected_ab) = [''a'', ''b'']"
  using health_failure_frame [OF reachable_connected_ab, of "NotOk 503" 20 21]
    reachable_connected_ab
  by (simp add: connected_ab_facts split: option.splits)

text \<open>C9 as the specification states it: with the backend never there, the statuses that
  a listener of status-changed is shown would be Starting and then Disconnected ten times.
  They are not: the listener is shown Disconnected first, then Reconnecting, and for each
  further attempt Starting, Disconnected and Reconnecting.\<close>

theorem unreachable_statuses_counterexample:
  "shown (digest (since (construct localhost) stalled))
     \<noteq> [Starting, Disconnected, Disconnected, Disconnected, Disconnected, Disconnected,
         Disconnected, Disconnected, Disconnected, Disconnected, Disconnected]
   \<and> take 5 (shown (digest (since (construct localhost) stalled)))
       = [Disconnected, Reconnecting, Starting, Disconnected, Reconnecting]"
  by (simp add: stalled_heard)

text \<open>C9, amended. With the backend never there, the Starting of the first attempt is
  fired inside the constructor, where no listener can be subscribed yet. A listener
  subscribed when the constructor returns is then shown Disconnected with the counter at 0
  and Reconnecting with the counter at 1, while a timeout of 1000 ms is set; and for each
  timer k = 2, ..., 10 it is shown Starting, Disconnected with the counter still at k - 1
  and Reconnecting with the counter at k, while a timeout of min(1000 * 2^(k-1), 30000) ms
  is set. The attempt of the tenth timer shows Starting and Disconnected and sets no
  timeout. From then on every timer and every answer of the network is impossible or
  changes nothing, until \<open>reconnect()\<close> is called or Retry is chosen: either one sets the
  counter to 0 and the status to Starting.\<close>

theorem unreachable_endpoint_scenario:
  "run (refusals 10) (construct localhost) = Some stalled
   \<and> digest (trace (construct localhost)) = [Status Starting 0]
   \<and> digest (since (construct localhost) stalled) =
    [Status Disconnected 0, Status Reconnecting 1, Timer 1000,
     Status Starting 1, Status Disconnected 1, Status Reconnecting 2, Timer 2000,
     Status Starting 2, Status Disconnected 2, Status Reconnecting 3, Timer 4000,
     Status Starting 3, Status Disconnected 3, Status Reconnecting 4, Timer 8000,
     Status Starting 4, Status Disconnected 4, Status Reconnecting 5, Timer 16000,
     Status Starting 5, Status Disconnected 5, Status Reconnecting 6, Timer 30000,
     Status Starting 6, Status Disconnected 6, Status Reconnecting 7, Timer 30000,
     Status Starting 7, Status Disconnected 7, Status Reconnecting 8, Timer 30000,
     Status Starting 8, Status Disconnected 8, Status Reconnecting 9, Timer 30000,
     Status Starting 9, Status Disconnected 9, Status Reconnecting 10, Timer 30000,
     Status Starting 10, Status Disconnected 10]
   \<and> status (cur stalled) = Disconnected \<and> reconnectAttempts (cur stalled) = 10
   \<and> timeouts stalled = []
   \<and> (\<not> explicit e \<longrightarrow> step e stalled = None \<or> step e stalled = Some stalled)
   \<and> step CallReconnect stalled = Some (reconnect stalled)
   \<and> reconnectAttempts (cur (reconnect stalled)) = 0
   \<and> status (cur (reconnect stalled)) = Starting
   \<and> step (PromptAnswered 0 Retry) stalled = Some (prompt_answered Retry (resume 0 stalled))
   \<and> reconnectAttempts (cur (prompt_answered Retry (resume 0 stalled))) = 0
   \<and> status (cur (prompt_answered Retry (resume 0 stalled))) = Starting"
proof -
  have "step e stalled = None \<or> step e stalled = Some stalled" if "\<not> explicit e"
    using that by (rule stalled_idle)
  moreover
  have "step CallReconnect stalled = Some (reconnect stalled)"
    "reconnectAttempts (cur (reconnect stalled)) = 0"
    "status (cur (reconnect stalled)) = Starting"
    "step (PromptAnswered 0 Retry) stalled = Some (prompt_answered Retry (resume 0 stalled))"
    "reconnectAttempts (cur (prompt_answered Retry (resume 0 stalled))) = 0"
    "status (cur (prompt_answered Retry (resume 0 stalled))) = Starting"
    by (simp_all add: stalled_facts waiting_def reconnect_def prompt_answered_def
          connect_begin_def Let_def split: option.splits)
  ultimately show ?thesis
    using stalled_facts construct_fires stalled_heard by blast
qed

theorem unreachable_endpoint_scenario_witness:
  "\<not> explicit (HealthTick 1 100) \<and> step (HealthTick 1 100) stalled = Some stalled
   \<and> \<not> explicit (TimerFires 10) \<and> step (TimerFires 10) stalled = None"
  using unreachable_endpoint_scenario [of "HealthTick 1 100"]
    unreachable_endpoint_scenario [of "TimerFires 10"]
  by (simp add: stalled_facts)

text \<open>C10. The array that \<open>availableModels\<close> refers to, and with it the list of models, is
  written only where a \<open>connect()\<close> succeeds. Any run of events without such a success --
  health checks and their answers, \<open>switchModel\<close>, timers that fire, refused attempts and
  the reconnects they schedule, \<open>reconnect\<close>, \<open>updateEndpoint\<close>, \<open>getState\<close>, disposal --
  leaves the reference and the whole store of arrays as they were; \<open>switchModel\<close> checks
  membership in that list, however old it is.\<close>

theorem models_written_by_connect_only:
  "run es m = Some m' \<Longrightarrow> \<forall>e \<in> set es. \<not> connects e \<Longrightarrow>
     models m' = models m \<and> availableModels (cur m') = availableModels (cur m)
   \<and> arrays m' = arrays m
   \<and> (status (cur m') = Connected \<longrightarrow>
        (fst (switchModel_call modelName m') = Some False) = (modelName \<notin> set (models m)))"
proof -
  assume "run es m = Some m'" "\<forall>e \<in> set es. \<not> connects e"
  then have "roster m' = roster m"
    by (rule roster_run)
  then show ?thesis
    by (simp add: roster_def models_def switchModel_call_def)
qed

theorem models_written_by_connect_only_witness:
  "run [HealthTick 0 20, HealthSettles 0 (Ok ()) 25, CallSwitchModel ''b'',
        GenerateSettles 0 (Ok ()), CallGetState] connected_ab \<noteq> None
   \<and> status (cur (the (run [HealthTick 0 20, HealthSettles 0 (Ok ()) 25, CallSwitchModel ''b'',
        GenerateSettles 0 (Ok ()), CallGetState] connected_ab))) = Connected
   \<and> models (the (run [HealthTick 0 20, HealthSettles 0 (Ok ()) 25, CallSwitchModel ''b'',
        GenerateSettles 0 (Ok ()), CallGetState] connected_ab)) = [''a'', ''b'']
   \<and> fst (switchModel_call ''c'' (the (run [HealthTick 0 20, HealthSettles 0 (Ok ()) 25,
        CallSwitchModel ''b'', GenerateSettles 0 (Ok ()), CallGetState] connected_ab))) = Some False"
proof -
  let ?es = "[HealthTick 0 20, HealthSettles 0 (Ok ()) 25, CallSwitchModel ''b'',
        GenerateSettles 0 (Ok ()), CallGetState]"
  have r: "run ?es connected_ab \<noteq> None"
    and c: "status (cur (the (run ?es connected_ab))) = Connected"
    by (simp_all add: connected_ab_def exec)
  have "\<forall>e \<in> set ?es. \<not> connects e"
    by simp
  from models_written_by_connect_only [OF run_the [OF r] this, of "''c''"] r c show ?thesis
    by (simp add: connected_ab_facts)
qed

end
